theory Spec2Isabelle
  imports Main "HOL-Library.Word"
begin

unbundle bit_operations_syntax

section \<open>The VideoCore IV QPU assembler (videocore/assembler.py)\<close>

text \<open>
  A shallow embedding of the assembler's register model, immediate encoders, operand
  placement, instruction words and label resolution. Python exceptions are values of
  \<open>error\<close>; a function that can raise returns \<open>error + 'a\<close> with \<open>Inl\<close> the exception.
\<close>

subsection \<open>Exceptions\<close>

text \<open>
  Every \<^verbatim>\<open>raise AssembleError(...)\<close> of the source is one constructor of \<open>diag\<close>, named
  after the diagnostic; the formatted operand is kept where a claim reads it. The other
  constructors of \<open>error\<close> are the built-in Python exceptions the modelled code can raise.
\<close>

datatype diag =
    IllegalImmediate              \<comment> \<open>Immediate operand .. is not allowed\<close>
  | UnsupportedImmediate          \<comment> \<open>Unsupported immediate value ..\<close>
  | TooManyLanes                  \<comment> \<open>Too many values ..\<close>
  | LaneOutOfRange int bool       \<comment> \<open>.. is not a 2-bit signed/unsigned value\<close>
  | PackingOfReadOperand          \<comment> \<open>Packing of read operand\<close>
  | MultipleUnpacking             \<comment> \<open>Multiple unpacking\<close>
  | TooManyRegfileA               \<comment> \<open>Too many regfile A operand ..\<close>
  | TooManyRegfileB               \<comment> \<open>Too many regfile B operand ..\<close>
  | TooManyRegfile                \<comment> \<open>Too many regfile operand ..\<close>
  | NotAReadOperand               \<comment> \<open>.. can not be used as a read operand\<close>
  | TooManyPacking                \<comment> \<open>Too many packing\<close>
  | BadDestinationCombination     \<comment> \<open>.. are not proper combination of destination registers\<close>
  | InvalidPackUnpackCombination  \<comment> \<open>Invalid combination of packing and unpacking\<close>
  | SignalConflictsWithImmediate string
                                  \<comment> \<open>Signal .. can not be used with ALU small immediate instruction\<close>
  | RotateWithImmediate           \<comment> \<open>Rotate operation can not be used with ALU small immediate ..\<close>
  | RotateOperandRestriction      \<comment> \<open>Rotate operation is only be available when both of mul ALU ..\<close>
  | InvalidRotation               \<comment> \<open>Invalid rotation value ..\<close>
  | UndefinedLabel string         \<comment> \<open>Undefined label ..\<close>
  | DuplicateLabel string         \<comment> \<open>Duplicated labels ..\<close>
  | InvalidBranchTarget           \<comment> \<open>Invalid branch target ..\<close>
  | MustBeRegfileA                \<comment> \<open>Must be regfile A register ..\<close>
  | PackingWithBranch             \<comment> \<open>Packing can not be used with branch instruction\<close>
  | NoUnpackOnAccumulator         \<comment> \<open>Accumulators r0-r3 have no unpack functionality\<close>
  | UnpackingNotSupported         \<comment> \<open>Unpacking is not supported for the register ..\<close>
  | NoPackOnAccumulator           \<comment> \<open>Accumulators r0-r3 have no pack functionality\<close>
  | PackingNotSupported           \<comment> \<open>Packing is not supported for the register ..\<close>
  | MulPackingNotSupported        \<comment> \<open>MUL ALU Packing is not supported for the register ..\<close>

datatype error =
    AssembleError diag
  | NameError string
  | KeyError string
  | IndexError
  | AssertionError
  | StructError
  | AttributeError
  | TypeError

subsection \<open>Python values\<close>

text \<open>
  The integer to text conversion of \<^verbatim>\<open>repr\<close> on a Python \<^verbatim>\<open>int\<close>.
\<close>

fun digits10 :: "nat \<Rightarrow> string" where
  "digits10 n =
     (if n < 10 then [''0123456789'' ! n]
      else digits10 (n div 10) @ [''0123456789'' ! (n mod 10)])"

definition repr_int :: "int \<Rightarrow> string" where
  "repr_int i = (if i < 0 then CHR ''-'' # digits10 (nat (- i)) else digits10 (nat i))"

text \<open>
  A scalar Python value as an operand of the assembler. The assembler reads two things
  of a float: its \<^verbatim>\<open>repr\<close> (the key of the small-immediate table) and its binary32
  image (\<^verbatim>\<open>struct.pack('f', val)\<close>); a float is carried by exactly these two.
\<close>

datatype pyval =
    PyInt int
  | PyFloat string "32 word"

fun repr :: "pyval \<Rightarrow> string" where
  "repr (PyInt i) = repr_int i"
| "repr (PyFloat r b) = r"

subsection \<open>Registers\<close>

definition REG_AR :: nat where "REG_AR = push_bit 3 1"
definition REG_BR :: nat where "REG_BR = push_bit 2 1"
definition REG_AW :: nat where "REG_AW = push_bit 1 1"
definition REG_BW :: nat where "REG_BW = push_bit 0 1"

definition UNPACK :: "(string \<times> nat) list" where
  "UNPACK = [(''nop'', 0), (''16a'', 1), (''16b'', 2), (''rep 8d'', 3), (''8a'', 4),
             (''8b'', 5), (''8c'', 6), (''8d'', 7)]"

definition PACK :: "(string \<times> nat) list" where
  "PACK = [(''nop'', 0), (''16a'', 1), (''16b'', 2), (''rep 8a'', 3), (''8a'', 4),
           (''8b'', 5), (''8c'', 6), (''8d'', 7), (''32 sat'', 8), (''16a sat'', 9),
           (''16b sat'', 10), (''rep 8a sat'', 11), (''8a sat'', 12), (''8b sat'', 13),
           (''8c sat'', 14), (''8d sat'', 15), (''rep 8a mul'', 3), (''8a mul'', 4),
           (''8b mul'', 5), (''8c mul'', 6), (''8d mul'', 7)]"

text \<open>
  The class \<^verbatim>\<open>Register\<close>: the constructor takes the attributes in the order of
  \<^verbatim>\<open>__init__(self, name, addr, spec, pack, unpack, pm)\<close>, and each attribute is read by
  the selector of its name.
\<close>

datatype Register =
  Register (name: string) (addr: nat) (spec: nat) (pack_bits: nat) (unpack_bits: nat)
    (pm_bits: bool)

text \<open>\<^verbatim>\<open>Register(name, addr, spec)\<close> with the constructor's defaults.\<close>

definition mk_register :: "string \<Rightarrow> nat \<Rightarrow> nat \<Rightarrow> Register" where
  "mk_register n a s = Register n a s 0 0 False"

text \<open>\<^verbatim>\<open>reg.spec & flag\<close> as a truth value.\<close>

definition has_flag :: "Register \<Rightarrow> nat \<Rightarrow> bool" where
  "has_flag r f = (spec r AND f \<noteq> 0)"

text \<open>A dictionary lookup \<^verbatim>\<open>d[key]\<close>, raising \<^verbatim>\<open>KeyError\<close>.\<close>

definition getitem :: "(string \<times> 'a) list \<Rightarrow> string \<Rightarrow> error + 'a" where
  "getitem d k = (case map_of d k of None \<Rightarrow> Inl (KeyError k) | Some v \<Rightarrow> Inr v)"

definition Register_unpack :: "Register \<Rightarrow> string \<Rightarrow> error + Register" where
  "Register_unpack r pat =
     (if name r \<in> set [''r0'', ''r1'', ''r2'', ''r3'']
      then Inl (AssembleError NoUnpackOnAccumulator)
      else if name r \<noteq> ''r4'' \<and> \<not> has_flag r REG_AR
      then Inl (AssembleError UnpackingNotSupported)
      else case getitem UNPACK pat of
             Inl e \<Rightarrow> Inl e
           | Inr u \<Rightarrow>
               Inr (Register (name r) (addr r)
                      (if name r = ''r4'' then REG_AR OR REG_BR else REG_AR)
                      0 u (name r = ''r4'')))"

definition Register_pack :: "Register \<Rightarrow> string \<Rightarrow> error + Register" where
  "Register_pack r pat =
     (if name r \<in> set [''r0'', ''r1'', ''r2'', ''r3'']
      then Inl (AssembleError NoPackOnAccumulator)
      else if drop (length pat - 3) pat \<noteq> ''mul''
      then (if \<not> has_flag r REG_AW then Inl (AssembleError PackingNotSupported)
            else case getitem PACK pat of
                   Inl e \<Rightarrow> Inl e
                 | Inr p \<Rightarrow>
                     Inr (Register (name r) (addr r) REG_AW p 0 False))
      else (if \<not> has_flag r REG_BW then Inl (AssembleError MulPackingNotSupported)
            else case getitem PACK pat of
                   Inl e \<Rightarrow> Inl e
                 | Inr p \<Rightarrow>
                     Inr (Register (name r) (addr r) REG_BW p 0 True)))"

text \<open>
  The catalog \<^verbatim>\<open>REGISTERS\<close>: the general purpose registers of both files, then the
  register file I/O entries, in the order the source inserts them.
\<close>

definition general_purpose :: "(string \<times> Register) list" where
  "general_purpose =
     concat (map (\<lambda>(file, s).
        map (\<lambda>a. (''r'' @ file @ digits10 a, mk_register (''r'' @ file @ digits10 a) a s))
            [0..<64])
       [(''a'', 0xA), (''b'', 0x5)])"

definition regfile_io :: "(string \<times> Register) list" where
  "regfile_io = map (\<lambda>(n, a, s). (n, mk_register n a s))
     [(''uniform'', 32, 0xC), (''r0'', 32, 0x3), (''r1'', 33, 0x3), (''r2'', 34, 0x3),
      (''r3'', 35, 0x3), (''r4'', 36, 0x0), (''r5'', 37, 0x3), (''varying_read'', 35, 0xC),
      (''tmu_noswap'', 36, 0x3), (''host_interrupt'', 38, 0x3),
      (''element_number'', 38, 0x8), (''qpu_number'', 38, 0x4), (''null'', 39, 0xF),
      (''uniforms_address'', 40, 0x3), (''x_pixel_coord'', 41, 0x8),
      (''y_pixel_coord'', 41, 0x4), (''quad_x'', 41, 0x2), (''quad_y'', 41, 0x1),
      (''ms_flags'', 42, 0xA), (''rev_flag'', 42, 0x5), (''tlb_stencil_setup'', 43, 0x3),
      (''tlb_z'', 44, 0x3), (''tlb_color_ms'', 45, 0x3), (''tlb_color_all'', 46, 0x3),
      (''tlb_alpha_mask'', 47, 0x3), (''vpm'', 48, 0xF), (''vpm_ld_busy'', 49, 0x8),
      (''vpm_st_busy'', 49, 0x4), (''vpmvcd_rd_setup'', 49, 0x2),
      (''vpmvcd_wr_setup'', 49, 0x1), (''vpm_ld_wait'', 50, 0x8), (''vpm_st_wait'', 50, 0x4),
      (''vpm_ld_addr'', 50, 0x2), (''vpm_st_addr'', 50, 0x1), (''mutex_acquire'', 51, 0xC),
      (''mutex_release'', 51, 0x3), (''sfu_recip'', 52, 0x3), (''sfu_recipsqrt'', 53, 0x3),
      (''sfu_exp'', 54, 0x3), (''sfu_log'', 55, 0x3), (''tmu0_s'', 56, 0x3),
      (''tmu0_t'', 57, 0x3), (''tmu0_r'', 58, 0x3), (''tmu0_b'', 59, 0x3),
      (''tmu1_s'', 60, 0x3), (''tmu1_t'', 61, 0x3), (''tmu1_r'', 62, 0x3),
      (''tmu1_b'', 63, 0x3)]"

text \<open>
  \<^verbatim>\<open>dict.update\<close> overwrites a key that is already there, so a lookup finds the
  last entry inserted under a key: \<open>map_of\<close> on the reversed insertion order.
\<close>

definition REGISTERS :: "(string \<times> Register) list" where
  "REGISTERS = rev (general_purpose @ regfile_io)"

text \<open>The catalog entries the assembler itself names.\<close>

definition reg_r0 :: Register where "reg_r0 = mk_register ''r0'' 32 0x3"
definition reg_r5 :: Register where "reg_r5 = mk_register ''r5'' 37 0x3"
definition reg_null :: Register where "reg_null = mk_register ''null'' 39 0xF"

subsection \<open>Small immediates\<close>

text \<open>
  The table from the \<^verbatim>\<open>repr\<close> of a value to its code. The float keys are
  \<^verbatim>\<open>repr(2.0**i)\<close> for \<open>i = 0..7\<close> and \<^verbatim>\<open>repr(2.0**(i-8))\<close> for \<open>i = 0..7\<close>.
\<close>

definition SMALL_IMMEDIATES :: "(string \<times> nat) list" where
  "SMALL_IMMEDIATES = rev (
       map (\<lambda>i. (repr_int (int i), i)) [0..<16]
     @ map (\<lambda>i. (repr_int (int i - 16), i + 16)) [0..<16]
     @ map (\<lambda>i. ([''1.0'', ''2.0'', ''4.0'', ''8.0'', ''16.0'', ''32.0'', ''64.0'', ''128.0''] ! i,
                  i + 32)) [0..<8]
     @ map (\<lambda>i. ([''0.00390625'', ''0.0078125'', ''0.015625'', ''0.03125'', ''0.0625'',
                   ''0.125'', ''0.25'', ''0.5''] ! i, i + 40)) [0..<8]
     @ [(''0.0'', 0)])"

definition pack_small_imm :: "pyval \<Rightarrow> error + nat" where
  "pack_small_imm val =
     (case map_of SMALL_IMMEDIATES (repr val) of
        None \<Rightarrow> Inl (AssembleError IllegalImmediate)
      | Some code \<Rightarrow> Inr code)"

subsection \<open>Load immediates\<close>

text \<open>
  The argument of \<^verbatim>\<open>pack_imm\<close>: a scalar, a list or tuple of integers, or a value of
  another type (a string, say).
\<close>

datatype imm_arg =
    Scalar pyval
  | Vector "int list"
  | Unsupported

text \<open>
  The loop over the 16 lanes, with the accumulators \<open>high\<close> and \<open>low\<close> passed along.
\<close>

fun pack_lanes :: "bool \<Rightarrow> int list \<Rightarrow> int \<Rightarrow> int \<Rightarrow> error + (int \<times> int)" where
  "pack_lanes sgn_flag [] high low = Inr (high, low)"
| "pack_lanes sgn_flag (v # vs) high low =
     (let high1 = push_bit 1 high; low1 = push_bit 1 low in
      if (sgn_flag \<and> (v \<ge> 2 \<or> v < -2)) \<or> (\<not> sgn_flag \<and> v \<ge> 4)
      then Inl (AssembleError (LaneOutOfRange v sgn_flag))
      else pack_lanes sgn_flag vs (high1 OR drop_bit 1 (v AND 2)) (low1 OR (v AND 1)))"

text \<open>
  \<^verbatim>\<open>struct.pack\<close> of an integer into 32 bits (\<^verbatim>\<open>'l'\<close> for a negative value, \<^verbatim>\<open>'L'\<close>
  otherwise), read back unsigned; out of range it raises \<^verbatim>\<open>struct.error\<close>.
\<close>

definition pack_imm :: "imm_arg \<Rightarrow> error + (int \<times> nat)" where
  "pack_imm val =
     (case val of
        Scalar (PyFloat r b) \<Rightarrow> Inr (uint b, 0)
      | Scalar (PyInt i) \<Rightarrow>
          (if i < 0 then (if - (2 ^ 31) \<le> i then Inr (i + 2 ^ 32, 0) else Inl StructError)
           else (if i < 2 ^ 32 then Inr (i, 0) else Inl StructError))
      | Unsupported \<Rightarrow> Inl (AssembleError UnsupportedImmediate)
      | Vector val \<Rightarrow>
          (if length val > 16 then Inl (AssembleError TooManyLanes)
           else
             let vals = val @ replicate (16 - length val) 0;
                 sgn_flag = list_ex (\<lambda>x. x < 0) vals
             in case pack_lanes sgn_flag vals 0 0 of
                  Inl e \<Rightarrow> Inl e
                | Inr (high, low) \<Rightarrow>
                    Inr (push_bit 16 high OR low, 2 * (if sgn_flag then 0 else 1) + 1)))"

section \<open>Properties\<close>

subsection \<open>Small immediates\<close>

lemma SMALL_IMMEDIATES_codes: "\<forall>(k, c) \<in> set SMALL_IMMEDIATES. c \<le> 47"
  by (simp add: SMALL_IMMEDIATES_def upt_rec)

lemma pack_small_imm_code: "pack_small_imm v = Inr c \<Longrightarrow> c \<le> 47"
proof -
  assume "pack_small_imm v = Inr c"
  then have "map_of SMALL_IMMEDIATES (repr v) = Some c"
    by (simp add: pack_small_imm_def split: option.splits)
  then have "(repr v, c) \<in> set SMALL_IMMEDIATES"
    by (rule map_of_SomeD)
  with SMALL_IMMEDIATES_codes show "c \<le> 47"
    by blast
qed

lemma pack_small_imm_accepts:
  "map_of SMALL_IMMEDIATES (repr v) \<noteq> None \<Longrightarrow> \<exists>c. pack_small_imm v = Inr c \<and> c \<le> 47"
proof -
  assume "map_of SMALL_IMMEDIATES (repr v) \<noteq> None"
  then obtain c where c: "map_of SMALL_IMMEDIATES (repr v) = Some c"
    by blast
  then have r: "pack_small_imm v = Inr c"
    by (simp add: pack_small_imm_def)
  then have "c \<le> 47"
    by (rule pack_small_imm_code)
  with r show ?thesis
    by blast
qed

text \<open>
  C9: \<open>pack_small_imm\<close> maps the integer 0 and the float 0.0 to code 0; every value
  whose \<^verbatim>\<open>repr\<close> is a key of the table is accepted, with a code in [0, 47] (and no
  code outside [0, 47] is ever returned); a value whose \<^verbatim>\<open>repr\<close> is no key of the
  table is refused with the diagnostic "Immediate operand .. is not allowed".
\<close>

theorem pack_small_imm_table:
  "pack_small_imm (PyInt 0) = Inr 0 \<and>
   pack_small_imm (PyFloat ''0.0'' 0) = Inr 0 \<and>
   (\<forall>v. map_of SMALL_IMMEDIATES (repr v) \<noteq> None \<longrightarrow>
        (\<exists>c. pack_small_imm v = Inr c \<and> c \<le> 47)) \<and>
   (\<forall>v c. pack_small_imm v = Inr c \<longrightarrow> c \<le> 47) \<and>
   (\<forall>v. map_of SMALL_IMMEDIATES (repr v) = None \<longrightarrow>
        pack_small_imm v = Inl (AssembleError IllegalImmediate))"
proof -
  have zero_int: "pack_small_imm (PyInt 0) = Inr 0"
    by (simp add: pack_small_imm_def SMALL_IMMEDIATES_def upt_rec repr_int_def)
  have zero_float: "pack_small_imm (PyFloat ''0.0'' 0) = Inr 0"
    by (simp add: pack_small_imm_def SMALL_IMMEDIATES_def upt_rec repr_int_def)
  have refused: "pack_small_imm v = Inl (AssembleError IllegalImmediate)"
    if "map_of SMALL_IMMEDIATES (repr v) = None" for v
    using that by (simp add: pack_small_imm_def)
  from zero_int zero_float pack_small_imm_accepts pack_small_imm_code refused show ?thesis
    by blast
qed

text \<open>
  The table at work: the keys of -2, 1 and 0.00390625 are in the table, so the three
  values are accepted with a code in range (30, 1 and 40, the codes of the function's
  doctests); 1.2 is refused.
\<close>

theorem pack_small_imm_table_witness:
  "(\<exists>c. pack_small_imm (PyInt (- 2)) = Inr c \<and> c \<le> 47) \<and>
   pack_small_imm (PyInt (- 2)) = Inr 30 \<and>
   (\<exists>c. pack_small_imm (PyInt 1) = Inr c \<and> c \<le> 47) \<and>
   pack_small_imm (PyInt 1) = Inr 1 \<and>
   (\<exists>c. pack_small_imm (PyFloat ''0.00390625'' 0x3B800000) = Inr c \<and> c \<le> 47) \<and>
   pack_small_imm (PyFloat ''0.00390625'' 0x3B800000) = Inr 40 \<and>
   pack_small_imm (PyFloat ''1.0'' 0x3F800000) = Inr 32 \<and> (32 :: nat) \<le> 47 \<and>
   pack_small_imm (PyFloat ''1.2'' 0x3F99999A) = Inl (AssembleError IllegalImmediate)"
proof -
  have k1: "map_of SMALL_IMMEDIATES (repr (PyInt (- 2))) \<noteq> None"
    by (simp add: SMALL_IMMEDIATES_def upt_rec repr_int_def)
  have k2: "map_of SMALL_IMMEDIATES (repr (PyInt 1)) \<noteq> None"
    by (simp add: SMALL_IMMEDIATES_def upt_rec repr_int_def)
  have k3: "map_of SMALL_IMMEDIATES (repr (PyFloat ''0.00390625'' 0x3B800000)) \<noteq> None"
    by (simp add: SMALL_IMMEDIATES_def upt_rec repr_int_def)
  have v1: "pack_small_imm (PyInt (- 2)) = Inr 30"
    by (simp add: pack_small_imm_def SMALL_IMMEDIATES_def upt_rec repr_int_def)
  have v2: "pack_small_imm (PyInt 1) = Inr 1"
    by (simp add: pack_small_imm_def SMALL_IMMEDIATES_def upt_rec repr_int_def)
  have v3: "pack_small_imm (PyFloat ''0.00390625'' 0x3B800000) = Inr 40"
    by (simp add: pack_small_imm_def SMALL_IMMEDIATES_def upt_rec repr_int_def)
  have one: "pack_small_imm (PyFloat ''1.0'' 0x3F800000) = Inr 32"
    by (simp add: pack_small_imm_def SMALL_IMMEDIATES_def upt_rec repr_int_def)
  have none: "map_of SMALL_IMMEDIATES (repr (PyFloat ''1.2'' 0x3F99999A)) = None"
    by (simp add: SMALL_IMMEDIATES_def upt_rec repr_int_def)
  from pack_small_imm_table k1 k2 k3 v1 v2 v3 one none show ?thesis
    by blast
qed

subsection \<open>Load immediates\<close>

lemma bit_two_int: "bit (2::int) n = (n = 1)"
proof (cases n)
  case 0
  then show ?thesis by (simp add: bit_0)
next
  case (Suc m)
  then show ?thesis by (cases m) (simp_all add: bit_Suc bit_0)
qed

lemma bit_and_2: "bit (v AND 2 :: int) n = (n = 1 \<and> bit v 1)"
  by (simp only: bit_and_iff bit_two_int) blast

lemma bit_and_1: "bit (v AND 1 :: int) n = (n = 0 \<and> bit v 0)"
  by (simp only: bit_and_iff bit_1_iff) blast

lemma bit_push1: "bit (push_bit 1 (h::int)) m = (m \<noteq> 0 \<and> bit h (m - 1))"
proof (cases m)
  case 0
  then show ?thesis by (simp only: bit_push_bit_iff_int) simp
next
  case (Suc k)
  then show ?thesis by (simp only: bit_push_bit_iff_int) simp
qed

lemma bit_drop1_and2: "bit (drop_bit 1 (v AND 2 :: int)) m = (m = 0 \<and> bit v 1)"
proof -
  have "bit (drop_bit 1 (v AND 2 :: int)) m = bit (v AND 2) (1 + m)"
    by (simp only: bit_drop_bit_eq comp_def)
  also have "\<dots> = (1 + m = 1 \<and> bit v 1)"
    by (rule bit_and_2)
  also have "\<dots> = (m = 0 \<and> bit v 1)"
    by simp
  finally show ?thesis .
qed

lemma bit_step_high:
  "bit (push_bit 1 h OR drop_bit 1 (v AND 2 :: int)) m = (if m = 0 then bit v 1 else bit h (m - 1))"
  by (simp only: bit_or_iff bit_push1 bit_drop1_and2) simp

lemma bit_step_low:
  "bit (push_bit 1 l OR (v AND 1 :: int)) m = (if m = 0 then bit v 0 else bit l (m - 1))"
  by (simp only: bit_or_iff bit_push1 bit_and_1) simp

lemma pack_lanes_Cons:
  "pack_lanes sg (v # vs) h l = Inr r \<Longrightarrow>
   pack_lanes sg vs (push_bit 1 h OR drop_bit 1 (v AND 2)) (push_bit 1 l OR (v AND 1)) = Inr r"
  by (simp add: Let_def split: if_splits)

lemma pack_lanes_bits:
  "pack_lanes sg vs h l = Inr (h', l') \<Longrightarrow>
     bit h' n = (if n < length vs then bit (vs ! (length vs - 1 - n)) 1 else bit h (n - length vs)) \<and>
     bit l' n = (if n < length vs then bit (vs ! (length vs - 1 - n)) 0 else bit l (n - length vs))"
proof (induction vs arbitrary: h l)
  case Nil
  then show ?case by simp
next
  case (Cons v vs)
  define h1 where "h1 = push_bit 1 h OR drop_bit 1 (v AND 2)"
  define l1 where "l1 = push_bit 1 l OR (v AND 1)"
  from Cons.prems have rec: "pack_lanes sg vs h1 l1 = Inr (h', l')"
    unfolding h1_def l1_def by (rule pack_lanes_Cons)
  note ih = Cons.IH [OF rec]
  have bh: "bit h1 m = (if m = 0 then bit v 1 else bit h (m - 1))" for m
    unfolding h1_def by (rule bit_step_high)
  have bl: "bit l1 m = (if m = 0 then bit v 0 else bit l (m - 1))" for m
    unfolding l1_def by (rule bit_step_low)
  consider (lt) "n < length vs" | (eq) "n = length vs" | (gt) "length vs < n"
    by linarith
  then show ?case
  proof cases
    case lt
    then have "(v # vs) ! (length (v # vs) - 1 - n) = vs ! (length vs - 1 - n)"
      by (simp add: nth_Cons')
    with lt ih show ?thesis by simp
  next
    case eq
    with ih have "bit h' n = bit h1 0" "bit l' n = bit l1 0"
      by simp_all
    then have "bit h' n = bit v 1" "bit l' n = bit v 0"
      by (simp_all add: bh bl)
    with eq show ?thesis by simp
  next
    case gt
    then have m: "(n - length vs = 0) = False" by simp
    have e: "n - length (v # vs) = n - length vs - 1" by simp
    from gt have nl: "(n < length (v # vs)) = False" by simp
    from ih gt have "bit h' n = bit h1 (n - length vs)" "bit l' n = bit l1 (n - length vs)"
      by simp_all
    then have "bit h' n = bit h (n - length vs - 1)" "bit l' n = bit l (n - length vs - 1)"
      by (simp_all only: bh bl m if_False)
    then show ?thesis by (simp only: nl if_False e)
  qed
qed

lemma pack_lanes_fail:
  "(\<exists>e. pack_lanes sg vs h l = Inl e) = (\<exists>v\<in>set vs. (sg \<and> (v \<ge> 2 \<or> v < -2)) \<or> (\<not> sg \<and> v \<ge> 4))"
  by (induction vs arbitrary: h l) (auto simp: Let_def)

lemma pack_lanes_error:
  "pack_lanes sg vs h l = Inl e \<Longrightarrow>
   \<exists>v\<in>set vs. ((sg \<and> (v \<ge> 2 \<or> v < -2)) \<or> (\<not> sg \<and> v \<ge> 4)) \<and>
       e = AssembleError (LaneOutOfRange v sg)"
  by (induction vs arbitrary: h l) (auto simp: Let_def split: if_splits)

lemma pack_imm_Vector:
  "length xs \<le> 16 \<Longrightarrow>
   pack_imm (Vector xs) =
     (case pack_lanes (\<exists>x\<in>set xs. x < 0) (xs @ replicate (16 - length xs) 0) 0 0 of
        Inl e \<Rightarrow> Inl e
      | Inr (high, low) \<Rightarrow>
          Inr (push_bit 16 high OR low, if (\<exists>x\<in>set xs. x < 0) then 1 else 3))"
proof -
  assume len: "length xs \<le> 16"
  have sg: "list_ex (\<lambda>x. x < 0) (xs @ replicate k (0::int)) = (\<exists>x\<in>set xs. x < 0)" for k
    by (auto simp: list_ex_iff)
  from len have nl: "(16 < length xs) = False"
    by simp
  have ar: "2 * (if b then 0 else 1) + 1 = (if b then 1 else (3::nat))" for b
    by simp
  have "pack_imm (Vector xs) =
     (case pack_lanes (list_ex (\<lambda>x. x < 0) (xs @ replicate (16 - length xs) 0))
             (xs @ replicate (16 - length xs) 0) 0 0 of
        Inl e \<Rightarrow> Inl e
      | Inr (high, low) \<Rightarrow>
          Inr (push_bit 16 high OR low,
               2 * (if list_ex (\<lambda>x. x < 0) (xs @ replicate (16 - length xs) 0) then 0 else 1) + 1))"
    by (simp only: pack_imm_def Let_def imm_arg.case nl if_False)
  then show ?thesis
    by (simp only: sg ar)
qed

lemma padded_nth:
  "length xs \<le> 16 \<Longrightarrow> i < 16 \<Longrightarrow>
   (xs @ replicate (16 - length xs) (0::int)) ! i = (if i < length xs then xs ! i else 0)"
  by (simp add: nth_append)

text \<open>
  C5: a vector of more than 16 lanes is refused as "Too many values". For a vector \<open>xs\<close> of
  at most 16 integer lanes, with \<open>sg\<close> standing for "some lane is negative":
  \<open>pack_imm\<close> fails exactly when some lane lies outside [-2, 1] (signed) or above 3
  (unsigned, where every lane is at least 0), and the failure names an offending lane and
  the signedness; when it returns \<open>(w, u)\<close>, the unpack code \<open>u\<close> is 1 for signed and 3
  for unsigned lanes, and the bits of \<open>w\<close> are exactly these: bit \<open>15 - i\<close> is bit 0 of
  lane \<open>i\<close>, bit \<open>31 - i\<close> is bit 1 of lane \<open>i\<close>, where a lane past the end of \<open>xs\<close>
  is 0, and no bit from 32 upwards is set.
\<close>

theorem pack_imm_vector:
  "(16 < length xs \<longrightarrow> pack_imm (Vector xs) = Inl (AssembleError TooManyLanes)) \<and>
   (length xs \<le> 16 \<and> sg = (\<exists>x\<in>set xs. x < 0) \<longrightarrow>
      ((\<exists>e. pack_imm (Vector xs) = Inl e) =
         (\<exists>v\<in>set xs. if sg then v < -2 \<or> 1 < v else 3 < v)) \<and>
      (\<forall>e. pack_imm (Vector xs) = Inl e \<longrightarrow>
         (\<exists>v\<in>set xs. e = AssembleError (LaneOutOfRange v sg))) \<and>
      (\<forall>w u. pack_imm (Vector xs) = Inr (w, u) \<longrightarrow>
         u = (if sg then 1 else 3) \<and>
         (\<forall>n. bit w n =
            (if n < 16 then bit (if 15 - n < length xs then xs ! (15 - n) else 0) 0
             else if n < 32 then bit (if 31 - n < length xs then xs ! (31 - n) else 0) 1
             else False))))"
proof (intro conjI impI)
  assume "16 < length xs"
  then show "pack_imm (Vector xs) = Inl (AssembleError TooManyLanes)"
    by (simp add: pack_imm_def)
next
  assume a: "length xs \<le> 16 \<and> sg = (\<exists>x\<in>set xs. x < 0)"
  then have len: "length xs \<le> 16" and sg: "sg = (\<exists>x\<in>set xs. x < 0)"
    by simp_all
  define vals where "vals = xs @ replicate (16 - length xs) (0::int)"
  have pi: "pack_imm (Vector xs) =
     (case pack_lanes sg vals 0 0 of
        Inl e \<Rightarrow> Inl e
      | Inr (high, low) \<Rightarrow> Inr (push_bit 16 high OR low, if sg then 1 else 3))"
    unfolding vals_def sg by (rule pack_imm_Vector [OF len])
  have lv: "length vals = 16"
    using len by (simp add: vals_def)
  have nth: "vals ! i = (if i < length xs then xs ! i else 0)" if "i < 16" for i
    unfolding vals_def using len that by (rule padded_nth)
  have setv: "set vals \<subseteq> set xs \<union> {0}" "set xs \<subseteq> set vals"
    by (auto simp: vals_def)
  have fail: "(\<exists>e. pack_imm (Vector xs) = Inl e) = (\<exists>e. pack_lanes sg vals 0 0 = Inl e)"
    by (simp add: pi split: sum.splits prod.splits)
  define bad where "bad v = ((sg \<and> (v \<ge> 2 \<or> v < -2)) \<or> (\<not> sg \<and> v \<ge> 4))" for v :: int
  have bad0: "\<not> bad 0"
    by (simp add: bad_def)
  have bad_alt: "bad v = (if sg then v < -2 \<or> 1 < v else 3 < v)" for v
    by (auto simp: bad_def)
  have "(\<exists>v\<in>set vals. bad v) = (\<exists>v\<in>set xs. bad v)"
    using setv bad0 by blast
  then show "(\<exists>e. pack_imm (Vector xs) = Inl e) =
         (\<exists>v\<in>set xs. if sg then v < -2 \<or> 1 < v else 3 < v)"
    unfolding fail pack_lanes_fail bad_alt [symmetric] bad_def .
  show "\<forall>e. pack_imm (Vector xs) = Inl e \<longrightarrow>
         (\<exists>v\<in>set xs. e = AssembleError (LaneOutOfRange v sg))"
  proof (intro allI impI)
    fix e assume "pack_imm (Vector xs) = Inl e"
    then have "pack_lanes sg vals 0 0 = Inl e"
      by (simp add: pi split: sum.splits prod.splits)
    from pack_lanes_error [OF this] obtain v where
      v: "v \<in> set vals" "(sg \<and> (v \<ge> 2 \<or> v < -2)) \<or> (\<not> sg \<and> v \<ge> 4)"
         "e = AssembleError (LaneOutOfRange v sg)"
      by blast
    from v(2) have "v \<noteq> 0" by auto
    with v(1) setv have "v \<in> set xs" by auto
    with v(3) show "\<exists>v\<in>set xs. e = AssembleError (LaneOutOfRange v sg)" by blast
  qed
  show "\<forall>w u. pack_imm (Vector xs) = Inr (w, u) \<longrightarrow>
         u = (if sg then 1 else 3) \<and>
         (\<forall>n. bit w n =
            (if n < 16 then bit (if 15 - n < length xs then xs ! (15 - n) else 0) 0
             else if n < 32 then bit (if 31 - n < length xs then xs ! (31 - n) else 0) 1
             else False))"
  proof (intro allI impI)
    fix w u assume r: "pack_imm (Vector xs) = Inr (w, u)"
    then obtain high low where
      pl: "pack_lanes sg vals 0 0 = Inr (high, low)" and
      w: "w = push_bit 16 high OR low" and u: "u = (if sg then 1 else 3)"
      by (auto simp: pi split: sum.splits prod.splits)
    have hb: "bit high n = (if n < 16 then bit (vals ! (15 - n)) 1 else False)" for n
      using pack_lanes_bits [OF pl, of n] by (simp add: lv)
    have lb: "bit low n = (if n < 16 then bit (vals ! (15 - n)) 0 else False)" for n
      using pack_lanes_bits [OF pl, of n] by (simp add: lv)
    have wb: "bit w n = ((16 \<le> n \<and> bit high (n - 16)) \<or> bit low n)" for n
      unfolding w by (simp only: bit_or_iff bit_push_bit_iff_int) 
    have bits: "\<forall>n. bit w n =
            (if n < 16 then bit (if 15 - n < length xs then xs ! (15 - n) else 0) 0
             else if n < 32 then bit (if 31 - n < length xs then xs ! (31 - n) else 0) 1
             else False)"
    proof (rule allI)
      fix n :: nat
      consider (lo) "n < 16" | (hi) "16 \<le> n" "n < 32" | (out) "32 \<le> n" by linarith
      then show "bit w n =
            (if n < 16 then bit (if 15 - n < length xs then xs ! (15 - n) else 0) 0
             else if n < 32 then bit (if 31 - n < length xs then xs ! (31 - n) else 0) 1
             else False)"
      proof cases
        case lo
        then have "bit w n = bit (vals ! (15 - n)) 0" by (simp add: wb lb)
        also have "vals ! (15 - n) = (if 15 - n < length xs then xs ! (15 - n) else 0)"
          by (rule nth) simp
        finally show ?thesis using lo by simp
      next
        case hi
        then have e: "15 - (n - 16) = 31 - n" and k: "n - 16 < 16" and nk: "\<not> n < 16"
          by simp_all
        have "bit w n = bit (vals ! (31 - n)) 1"
          by (simp only: wb lb hb e k nk hi if_True if_False simp_thms)
        also have "vals ! (31 - n) = (if 31 - n < length xs then xs ! (31 - n) else 0)"
        proof (rule nth)
          from hi show "31 - n < 16" by simp
        qed
        finally show ?thesis using hi by simp
      next
        case out
        then have k: "(n - 16 < 16) = False" and nk: "(n < 16) = False" "(n < 32) = False"
          by simp_all
        show ?thesis
          by (simp only: wb lb hb k nk if_False simp_thms)
      qed
    qed
    from u bits show "u = (if sg then 1 else 3) \<and>
         (\<forall>n. bit w n =
            (if n < 16 then bit (if 15 - n < length xs then xs ! (15 - n) else 0) 0
             else if n < 32 then bit (if 31 - n < length xs then xs ! (31 - n) else 0) 1
             else False))"
      by (rule conjI)
  qed
qed

text \<open>
  The two lanes [-2, 1] are signed: lane 0 puts its high bit at bit 31 and nothing at
  bit 15, lane 1 puts its low bit at bit 14 and nothing at bit 30, and the unpack code
  is 1. The unsigned vector [4, 2, 3] is refused, and so are 17 lanes.
\<close>

theorem pack_imm_vector_witness:
  "pack_imm (Vector [-2, 1]) = Inr (0x80004000, 1) \<and>
   bit (0x80004000 :: int) 31 \<and> \<not> bit (0x80004000 :: int) 15 \<and>
   \<not> bit (0x80004000 :: int) 30 \<and> bit (0x80004000 :: int) 14 \<and>
   (\<exists>e. pack_imm (Vector [4, 2, 3]) = Inl e) \<and>
   pack_imm (Vector (replicate 17 0)) = Inl (AssembleError TooManyLanes)"
proof -
  have r: "pack_imm (Vector [-2, 1]) = Inr (0x80004000, 1)"
    by (simp add: pack_imm_def eval_nat_numeral)
  have h: "length [-2, 1 :: int] \<le> 16 \<and> True = (\<exists>x\<in>set [-2, 1 :: int]. x < 0)"
    by simp
  note t = pack_imm_vector [of "[-2, 1]" True, THEN conjunct2, THEN mp, OF h]
  note t3 = t [THEN conjunct2, THEN conjunct2, THEN spec, THEN spec, THEN mp, OF r]
  have b: "bit (0x80004000 :: int) n =
            (if n < 16 then bit (if 15 - n < length [-2, 1 :: int] then [-2, 1 :: int] ! (15 - n) else 0) 0
             else if n < 32 then bit (if 31 - n < length [-2, 1 :: int] then [-2, 1 :: int] ! (31 - n) else 0) 1
             else False)" for n
    using t3 [THEN conjunct2, THEN spec, of n] .
  have b31: "bit (0x80004000 :: int) 31"
    by (simp only: b [of 31]) simp
  have b15: "\<not> bit (0x80004000 :: int) 15"
    by (simp only: b [of 15]) simp
  have b30: "\<not> bit (0x80004000 :: int) 30"
    by (simp only: b [of 30]) simp
  have b14: "bit (0x80004000 :: int) 14"
    by (simp only: b [of 14]) simp
  have h2: "length [4, 2, 3 :: int] \<le> 16 \<and> False = (\<exists>x\<in>set [4, 2, 3 :: int]. x < 0)"
    by simp
  have "\<exists>v\<in>set [4, 2, 3 :: int]. if False then v < -2 \<or> 1 < v else 3 < v"
    by simp
  with pack_imm_vector [of "[4, 2, 3]" False, THEN conjunct2, THEN mp, OF h2, THEN conjunct1]
  have f: "\<exists>e. pack_imm (Vector [4, 2, 3]) = Inl e"
    by (rule iffD2)
  have "16 < length (replicate 17 (0::int))"
    by simp
  with pack_imm_vector [of "replicate 17 0", THEN conjunct1]
  have tl: "pack_imm (Vector (replicate 17 0)) = Inl (AssembleError TooManyLanes)"
    by (rule mp)
  from r b31 b15 b30 b14 f tl show ?thesis by (intro conjI)
qed

text \<open>
  C6, as the code computes it: the 16 unsigned lanes [3,3,1,1,0,2,3,3,1,3,0,2,2,1,0,1]
  pack to the word 0xC758F3C5 (3344495557, the value of the function's own doctest)
  with unpack code 3.
\<close>

theorem pack_imm_unsigned_example:
  "pack_imm (Vector [3, 3, 1, 1, 0, 2, 3, 3, 1, 3, 0, 2, 2, 1, 0, 1]) = Inr (0xC758F3C5, 3)"
  by (simp add: pack_imm_def)

text \<open>
  The word 0xC759CE85 is not what \<open>pack_imm\<close> returns for these lanes.
\<close>

theorem pack_imm_unsigned_example_counterexample:
  "pack_imm (Vector [3, 3, 1, 1, 0, 2, 3, 3, 1, 3, 0, 2, 2, 1, 0, 1]) \<noteq> Inr (0xC759CE85, 3)"
  by (simp add: pack_imm_def)

end
